theory Spec2Isabelle
  imports Main "HOL-Library.Word"
begin

section \<open>The engine's interface\<close>

text \<open>
  \<open>index.cpp\<close> is a binding layer over the archive engine (namespace \<open>BSA\<close>, included
  from \<open>bsatk/src/bsaarchive.h\<close>). The engine's headers are not part of the sources, so its
  types are written down here from the way \<open>index.cpp\<close> uses them, and its functions that
  touch the file system are parameters of the model.
\<close>

text \<open>
  Modelled from the spec: the enum \<open>BSA::EErrorCode\<close> is declared by the engine. Its
  named enumerators are the ones \<open>convertErrorCode\<close> switches over (spec 4.4); a C++ enum
  can also hold a value that is none of them, which is \<open>ERROR_UNNAMED\<close> with that value.
\<close>

datatype EErrorCode =
    ERROR_NONE
  | ERROR_FILENOTFOUND
  | ERROR_ACCESSFAILED
  | ERROR_CANCELED
  | ERROR_INVALIDHASHES
  | ERROR_SOURCEFILEMISSING
  | ERROR_INVALIDDATA
  | ERROR_ZLIBINITFAILED
  | ERROR_UNNAMED int

text \<open>
  Modelled from the spec: the enum \<open>BSA::EType\<close> is declared by the engine. \<open>getType\<close>
  names two enumerators; the comment at line 163 and spec 3 say that the Fallout 3 and
  Fallout NV enumerators are the same value as the Skyrim one.
\<close>

datatype EType = TYPE_OBLIVION | TYPE_SKYRIM | TYPE_UNNAMED int

definition TYPE_FALLOUT3 :: EType where
  "TYPE_FALLOUT3 = TYPE_SKYRIM"

definition TYPE_FALLOUTNV :: EType where
  "TYPE_FALLOUTNV = TYPE_SKYRIM"

text \<open>A \<open>const char *\<close>: \<open>None\<close> is \<open>nullptr\<close>.\<close>

type_synonym cstr = "string option"

subsection \<open>The tree the engine owns\<close>

text \<open>
  Modelled from the spec: \<open>BSA::File\<close> and \<open>BSA::Folder\<close> are the engine's. Spec 3 gives a
  file entry a name, a source location (an offset in the parsed container, or an external
  path staged for inclusion) and a compression flag, and a folder a name, an ordered list
  of files and an ordered list of subfolders.
\<close>

datatype source_location = ContainerOffset nat | ExternalPath string

record File =
  file_name :: string
  file_source :: source_location
  file_compressed :: bool

datatype Folder = Folder (folder_name: string) (m_Files: "File list") (m_SubFolders: "Folder list")

text \<open>
  Modelled from the spec: the counters of \<open>BSA::Folder\<close>, which \<open>BSAFolder\<close> forwards to.
  They are \<open>unsigned int\<close> in the signatures of \<open>BSAFolder\<close>, so they are 32-bit words and
  the additions wrap. \<open>Folder_countFiles\<close> is spec 4.2's "all files under this subtree,
  computed by summing over subfolders": a running total over the subfolders, to which
  the folder's own files are added.
\<close>

definition Folder_getNumFiles :: "Folder \<Rightarrow> 32 word" where
  "Folder_getNumFiles f = of_nat (length (m_Files f))"

definition Folder_getNumSubFolders :: "Folder \<Rightarrow> 32 word" where
  "Folder_getNumSubFolders f = of_nat (length (m_SubFolders f))"

fun Folder_countFiles :: "Folder \<Rightarrow> 32 word" where
  "Folder_countFiles (Folder n fs subs) =
     fold (\<lambda>sub result. result + Folder_countFiles sub) subs 0 + of_nat (length fs)"

text \<open>
  Modelled from the spec: indexed access of \<open>BSA::Folder\<close> is bounds-checked (spec 4.2); an
  index out of range is an error of the caller, here the value \<open>OutOfRange\<close>.
\<close>

datatype range_error = OutOfRange

definition Folder_getSubFolder :: "Folder \<Rightarrow> nat \<Rightarrow> range_error + Folder" where
  "Folder_getSubFolder f i =
     (if i < length (m_SubFolders f) then Inr (m_SubFolders f ! i) else Inl OutOfRange)"

definition Folder_getFile :: "Folder \<Rightarrow> nat \<Rightarrow> range_error + File" where
  "Folder_getFile f i =
     (if i < length (m_Files f) then Inr (m_Files f ! i) else Inl OutOfRange)"

text \<open>Every folder of a tree, the root first.\<close>

fun all_folders :: "Folder \<Rightarrow> Folder list" where
  "all_folders (Folder n fs subs) = Folder n fs subs # concat (map all_folders subs)"

text \<open>Every file of a tree: the folder's own files, then those of its subfolders.\<close>

fun all_files :: "Folder \<Rightarrow> File list" where
  "all_files (Folder n fs subs) = fs @ concat (map all_files subs)"

text \<open>The state of a \<open>BSA::Archive\<close> that this layer reads: its variant and its root folder.\<close>

record Archive =
  a_type :: EType
  a_root :: Folder

text \<open>
  Modelled from the spec: \<open>BSA::Archive::createFile\<close> stages an external file for
  inclusion and does not look at the file system (spec 4.1); \<open>getRoot\<close> and \<open>getType\<close>
  read the archive's state.
\<close>

definition Archive_createFile :: "Archive \<Rightarrow> string \<Rightarrow> string \<Rightarrow> bool \<Rightarrow> File" where
  "Archive_createFile a name sourcePath compressed =
     \<lparr>file_name = name, file_source = ExternalPath sourcePath, file_compressed = compressed\<rparr>"

definition Archive_getRoot :: "Archive \<Rightarrow> Folder" where
  "Archive_getRoot a = a_root a"

definition Archive_getType :: "Archive \<Rightarrow> EType" where
  "Archive_getType a = a_type a"

subsection \<open>The world outside and the engine's input and output\<close>

text \<open>
  The file system, of any type \<open>'fs\<close>, and the thread's \<open>errno\<close>. The engine's functions
  that do input and output take the world and return it changed, with their result code.
\<close>

record 'fs world =
  files :: 'fs
  errno :: int

text \<open>
  What \<open>index.cpp\<close> calls and does not define:
  \<^item> \<open>eng_new\<close>: the state of a default-constructed \<open>BSA::Archive\<close>;
  \<^item> \<open>toWC\<close> (\<open>string_cast.h\<close>): the conversion of a UTF-8 path, \<open>Inl what\<close> when it raises
    a \<open>std::exception\<close> with that message;
  \<^item> \<open>eng_read\<close>, \<open>eng_write\<close>, \<open>eng_extract\<close>, \<open>eng_extractAll\<close>: the member functions
    \<open>read\<close>, \<open>write\<close>, \<open>extract\<close> and \<open>extractAll\<close> of \<open>BSA::Archive\<close>, each returning an
    \<open>EErrorCode\<close>; \<open>extractAll\<close> takes the per-file progress predicate.
\<close>

record 'fs platform =
  eng_new :: Archive
  toWC :: "string \<Rightarrow> string + string"
  eng_read :: "Archive \<Rightarrow> string \<Rightarrow> bool \<Rightarrow> 'fs world \<Rightarrow> EErrorCode \<times> Archive \<times> 'fs world"
  eng_write :: "Archive \<Rightarrow> string \<Rightarrow> 'fs world \<Rightarrow> EErrorCode \<times> 'fs world"
  eng_extract :: "Archive \<Rightarrow> File \<Rightarrow> string \<Rightarrow> 'fs world \<Rightarrow> EErrorCode \<times> 'fs world"
  eng_extractAll ::
    "Archive \<Rightarrow> string \<Rightarrow> (int \<Rightarrow> string \<Rightarrow> bool) \<Rightarrow> 'fs world \<Rightarrow> EErrorCode \<times> 'fs world"

section \<open>The error taxonomy\<close>

text \<open>\<open>convertErrorCode\<close>, lines 7 to 19; the last equation is the \<open>default\<close> label.\<close>

fun convertErrorCode :: "EErrorCode \<Rightarrow> cstr" where
  "convertErrorCode ERROR_ACCESSFAILED = Some ''access failed''"
| "convertErrorCode ERROR_CANCELED = Some ''canceled''"
| "convertErrorCode ERROR_FILENOTFOUND = Some ''file not found''"
| "convertErrorCode ERROR_INVALIDDATA = Some ''invalid data''"
| "convertErrorCode ERROR_INVALIDHASHES = Some ''invalid hashes''"
| "convertErrorCode ERROR_SOURCEFILEMISSING = Some ''source file missing''"
| "convertErrorCode ERROR_ZLIBINITFAILED = Some ''zlib init failed''"
| "convertErrorCode ERROR_NONE = None"
| "convertErrorCode _ = Some ''unknown''"

text \<open>
  \<open>BSAException\<close>, lines 21 to 38: the constructor takes the code and the name of the
  system call and reads \<open>errno\<close> itself.
\<close>

datatype BSAException = BSAException (code: EErrorCode) (sysError: int) (sysCall: cstr)

definition BSAException_new :: "EErrorCode \<Rightarrow> cstr \<Rightarrow> 'fs world \<Rightarrow> BSAException" where
  "BSAException_new c sc w = BSAException c (errno w) sc"

definition what :: "BSAException \<Rightarrow> cstr" where
  "what e = convertErrorCode (code e)"

text \<open>A C++ exception in flight: a \<open>BSAException\<close>, or another \<open>std::exception\<close> with its message.\<close>

datatype cpp_exception = BSAExc BSAException | StdExc string

section \<open>The handles of the tree\<close>

text \<open>
  \<open>BSAFile\<close>, lines 81 to 95, wraps a \<open>BSA::File::Ptr\<close>, a shared pointer that
  \<open>ExtractWorker::Execute\<close> tests against \<open>nullptr\<close>: \<open>None\<close> is the null pointer.
\<close>

datatype BSAFile = BSAFile (getWrappee: "File option")

text \<open>\<open>BSAFolder\<close>, lines 97 to 115: each member function forwards to the engine's folder.\<close>

datatype BSAFolder = BSAFolder (m_Folder: Folder)

definition getNumSubFolders :: "BSAFolder \<Rightarrow> 32 word" where
  "getNumSubFolders self = Folder_getNumSubFolders (m_Folder self)"

definition getSubFolder :: "BSAFolder \<Rightarrow> nat \<Rightarrow> range_error + BSAFolder" where
  "getSubFolder self i = map_sum id BSAFolder (Folder_getSubFolder (m_Folder self) i)"

definition getNumFiles :: "BSAFolder \<Rightarrow> 32 word" where
  "getNumFiles self = Folder_getNumFiles (m_Folder self)"

definition countFiles :: "BSAFolder \<Rightarrow> 32 word" where
  "countFiles self = Folder_countFiles (m_Folder self)"

definition getFile :: "BSAFolder \<Rightarrow> nat \<Rightarrow> range_error + BSAFile" where
  "getFile self i = map_sum id (\<lambda>f. BSAFile (Some f)) (Folder_getFile (m_Folder self) i)"

text \<open>The handles of the direct subfolders, in order.\<close>

definition subFolders :: "BSAFolder \<Rightarrow> BSAFolder list" where
  "subFolders self = map BSAFolder (m_SubFolders (m_Folder self))"

section \<open>The archive handle\<close>

text \<open>
  \<open>BSArchive\<close>, lines 117 to 206. \<open>m_Wrapped\<close> is the engine's archive, \<open>m_Name\<close> the path
  the handle was made for.
\<close>

record BSArchive =
  m_Name :: string
  m_Wrapped :: Archive

text \<open>
  What JavaScript receives: \<open>Nan::Null()\<close>, \<open>Nan::Error(message)\<close>,
  \<open>Nan::ErrnoException(errno, syscall)\<close>, and the archive handle that
  \<open>nbind::convertToWire\<close> makes.
\<close>

datatype js_value =
    Null
  | Error cstr
  | ErrnoException int cstr
  | Wire BSArchive

text \<open>
  \<open>v8::Isolate::GetCurrent()\<close> is \<open>nullptr\<close> on a background thread and the isolate when
  the function is called directly from JavaScript.
\<close>

datatype Isolate = Isolate

text \<open>
  How a member function ends: it returns, it returns after \<open>isolate->ThrowException\<close> has
  scheduled a JavaScript exception, or a C++ exception leaves it.
\<close>

datatype 'a outcome =
    Return 'a
  | ReturnPending js_value 'a
  | Raise cpp_exception

text \<open>\<open>BSArchive::write\<close>, lines 137 to 153.\<close>

definition BSArchive_write ::
  "'fs platform \<Rightarrow> Isolate option \<Rightarrow> BSArchive \<Rightarrow> 'fs world \<Rightarrow> unit outcome \<times> 'fs world" where
  "BSArchive_write P GetCurrent self w =
     (case eng_write P (m_Wrapped self) (m_Name self) w of (err, w') \<Rightarrow>
        if err \<noteq> ERROR_NONE then
          (case GetCurrent of
             None \<Rightarrow> (Raise (BSAExc (BSAException_new err (Some ''write'') w')), w')
           | Some isolate \<Rightarrow>
               (ReturnPending
                  (if err = ERROR_ACCESSFAILED \<or> err = ERROR_FILENOTFOUND
                   then ErrnoException (errno w') (Some ''write'')
                   else Error (convertErrorCode err)) (), w'))
        else (Return (), w'))"

text \<open>\<open>BSArchive::getRoot\<close>, lines 155 to 157, and \<open>getType\<close>, lines 159 to 166.\<close>

definition getRoot :: "BSArchive \<Rightarrow> BSAFolder" where
  "getRoot self = BSAFolder (Archive_getRoot (m_Wrapped self))"

definition getType :: "BSArchive \<Rightarrow> cstr" where
  "getType self =
     (case Archive_getType (m_Wrapped self) of
        TYPE_OBLIVION \<Rightarrow> Some ''oblivion''
      | TYPE_SKYRIM \<Rightarrow> Some ''skyrim''
      | _ \<Rightarrow> None)"

text \<open>
  \<open>BSArchive::read\<close>, lines 168 to 184. The engine fills the wrapped archive, so the
  handle is returned with it. An exception of \<open>toWC\<close> leaves \<open>read\<close> before the engine runs.
\<close>

definition BSArchive_read ::
  "'fs platform \<Rightarrow> Isolate option \<Rightarrow> BSArchive \<Rightarrow> string \<Rightarrow> bool \<Rightarrow> 'fs world
     \<Rightarrow> BSArchive outcome \<times> 'fs world" where
  "BSArchive_read P GetCurrent self fileName testHashes w =
     (case toWC P fileName of
        Inl msg \<Rightarrow> (Raise (StdExc msg), w)
      | Inr wide \<Rightarrow>
         (case eng_read P (m_Wrapped self) wide testHashes w of (err, a, w') \<Rightarrow>
            if err \<noteq> ERROR_NONE then
              (case GetCurrent of
                 None \<Rightarrow> (Raise (BSAExc (BSAException_new err (Some ''write'') w')), w')
               | Some isolate \<Rightarrow>
                   (ReturnPending
                      (if err = ERROR_ACCESSFAILED \<or> err = ERROR_FILENOTFOUND
                       then ErrnoException (errno w') (Some ''write'')
                       else Error (convertErrorCode err)) (self\<lparr>m_Wrapped := a\<rparr>), w'))
            else (Return (self\<lparr>m_Wrapped := a\<rparr>), w')))"

text \<open>The constructor, lines 119 to 126.\<close>

definition BSArchive_new ::
  "'fs platform \<Rightarrow> Isolate option \<Rightarrow> string \<Rightarrow> bool \<Rightarrow> bool \<Rightarrow> 'fs world
     \<Rightarrow> BSArchive outcome \<times> 'fs world" where
  "BSArchive_new P GetCurrent fileName testHashes create w =
     (let self = \<lparr>m_Name = fileName, m_Wrapped = eng_new P\<rparr> in
      if \<not> create then BSArchive_read P GetCurrent self fileName testHashes w
      else (Return self, w))"

text \<open>\<open>BSArchive::createFile\<close>, lines 200 to 202.\<close>

definition createFile :: "BSArchive \<Rightarrow> string \<Rightarrow> string \<Rightarrow> bool \<Rightarrow> BSAFile" where
  "createFile self name sourcePath compressed =
     BSAFile (Some (Archive_createFile (m_Wrapped self) name sourcePath compressed))"

section \<open>Background workers\<close>

text \<open>
  Both workers derive from \<open>Nan::AsyncWorker\<close> of the nan library (\<open>nan.h\<close>, outside the
  sources). The model takes from it what spec 4.3 describes as submit, execute, complete:
  \<^item> the worker holds an error message, null when it is constructed;
  \<^item> \<open>SetErrorMessage\<close> stores a copy of its argument, which it measures with \<open>strlen\<close>:
    a null argument is a fault;
  \<^item> \<open>Nan::AsyncQueueWorker\<close> runs \<open>Execute\<close> on a background thread and then, on the
    caller's thread, \<open>WorkComplete\<close>, which calls \<open>HandleOKCallback\<close> when the error
    message is null and \<open>HandleErrorCallback\<close> otherwise;
  \<^item> the \<open>HandleErrorCallback\<close> a worker inherits calls the callback with one argument,
    an \<open>Error\<close> of the error message.
  A call of the JavaScript callback is the list of its arguments; what a submission does
  to the callback is the list of its calls. A fault ends the process before any further
  call: \<open>NullPointer\<close> is the use of a null pointer, \<open>WildPointer\<close> the use of a pointer
  that addresses no object.
\<close>

datatype fault = NullPointer | WildPointer

record AsyncWorker =
  errmsg :: cstr

definition SetErrorMessage :: "cstr \<Rightarrow> 'a AsyncWorker_scheme \<Rightarrow> fault + 'a AsyncWorker_scheme" where
  "SetErrorMessage msg self =
     (case msg of None \<Rightarrow> Inl NullPointer | Some m \<Rightarrow> Inr (self\<lparr>errmsg := Some m\<rparr>))"

definition ErrorMessage :: "'a AsyncWorker_scheme \<Rightarrow> cstr" where
  "ErrorMessage self = errmsg self"

definition AsyncWorker_HandleErrorCallback :: "'a AsyncWorker_scheme \<Rightarrow> js_value list list" where
  "AsyncWorker_HandleErrorCallback self = [[Error (ErrorMessage self)]]"

subsection \<open>ExtractWorker\<close>

text \<open>\<open>ExtractWorker\<close>, lines 40 to 79.\<close>

record ExtractWorker = AsyncWorker +
  m_Archive :: Archive
  m_File :: "File option"
  m_OutputDirectory :: string

definition ExtractWorker_new :: "Archive \<Rightarrow> File option \<Rightarrow> string \<Rightarrow> ExtractWorker" where
  "ExtractWorker_new archive file outputrDirectory =
     \<lparr>errmsg = None, m_Archive = archive, m_File = file, m_OutputDirectory = outputrDirectory\<rparr>"

definition ExtractWorker_Execute ::
  "'fs platform \<Rightarrow> ExtractWorker \<Rightarrow> 'fs world \<Rightarrow> (fault + ExtractWorker) \<times> 'fs world" where
  "ExtractWorker_Execute P self w =
     (case (case m_File self of
              Some f \<Rightarrow> eng_extract P (m_Archive self) f (m_OutputDirectory self) w
            | None \<Rightarrow>
                eng_extractAll P (m_Archive self) (m_OutputDirectory self) (\<lambda>i name. True) w)
      of (code', w') \<Rightarrow>
        if code' \<noteq> ERROR_NONE then (SetErrorMessage (convertErrorCode code') self, w')
        else (Inr self, w'))"

definition ExtractWorker_HandleOKCallback :: "ExtractWorker \<Rightarrow> js_value list list" where
  "ExtractWorker_HandleOKCallback self = [[Null]]"

definition ExtractWorker_WorkComplete :: "ExtractWorker \<Rightarrow> js_value list list" where
  "ExtractWorker_WorkComplete self =
     (if errmsg self = None then ExtractWorker_HandleOKCallback self
      else AsyncWorker_HandleErrorCallback self)"

definition ExtractWorker_queue ::
  "'fs platform \<Rightarrow> ExtractWorker \<Rightarrow> 'fs world \<Rightarrow> (fault + js_value list list) \<times> 'fs world" where
  "ExtractWorker_queue P self w =
     (case ExtractWorker_Execute P self w of
        (Inl x, w') \<Rightarrow> (Inl x, w')
      | (Inr self', w') \<Rightarrow> (Inr (ExtractWorker_WorkComplete self'), w'))"

text \<open>\<open>BSArchive::extractFile\<close> and \<open>BSArchive::extractAll\<close>, lines 186 to 198.\<close>

definition extractFile ::
  "'fs platform \<Rightarrow> BSArchive \<Rightarrow> BSAFile \<Rightarrow> string \<Rightarrow> 'fs world
     \<Rightarrow> (fault + js_value list list) \<times> 'fs world" where
  "extractFile P self file outputDirectory w =
     ExtractWorker_queue P (ExtractWorker_new (m_Wrapped self) (getWrappee file) outputDirectory) w"

definition extractAll ::
  "'fs platform \<Rightarrow> BSArchive \<Rightarrow> string \<Rightarrow> 'fs world \<Rightarrow> (fault + js_value list list) \<times> 'fs world" where
  "extractAll P self outputDirectory w =
     ExtractWorker_queue P (ExtractWorker_new (m_Wrapped self) None outputDirectory) w"

subsection \<open>LoadWorker\<close>

text \<open>
  \<open>LoadWorker\<close>, lines 208 to 264. The constructor initialises the base class and
  \<open>m_OutputDirectory\<close>, \<open>m_TestHashes\<close> and \<open>m_Create\<close>; \<open>m_Result\<close>, \<open>m_ErrorCode\<close>,
  \<open>m_Errno\<close> and \<open>m_SysCall\<close> keep what the storage of the object holds, which is the
  argument \<open>storage\<close> of \<open>LoadWorker_new\<close>.

  \<open>m_SysCall\<close> is a \<open>const char *\<close> that may never have been assigned. What the storage
  holds for it is a pointer value of any kind: \<open>Valid\<close> of the null pointer or of a string,
  or \<open>Dangling\<close>, bytes that address no string. \<open>Nan::ErrnoException\<close> reads the string
  its system call argument points to, so a dangling argument is a fault.
\<close>

datatype char_pointer = Valid cstr | Dangling

record LoadWorker = AsyncWorker +
  m_Result :: "BSArchive option"
  m_OutputDirectory :: string
  m_ErrorCode :: EErrorCode
  m_Errno :: int
  m_SysCall :: char_pointer
  m_TestHashes :: bool
  m_Create :: bool

definition LoadWorker_new :: "LoadWorker \<Rightarrow> string \<Rightarrow> bool \<Rightarrow> bool \<Rightarrow> LoadWorker" where
  "LoadWorker_new storage fileName testHashes create =
     storage\<lparr>errmsg := None, m_OutputDirectory := fileName,
       m_TestHashes := testHashes, m_Create := create\<rparr>"

definition LoadWorker_Execute ::
  "'fs platform \<Rightarrow> Isolate option \<Rightarrow> LoadWorker \<Rightarrow> 'fs world \<Rightarrow> (fault + LoadWorker) \<times> 'fs world" where
  "LoadWorker_Execute P GetCurrent self w =
     (case BSArchive_new P GetCurrent (m_OutputDirectory self) (m_TestHashes self) (m_Create self) w of
        (Return a, w') \<Rightarrow> (Inr (self\<lparr>m_Result := Some a\<rparr>), w')
      | (ReturnPending x a, w') \<Rightarrow> (Inr (self\<lparr>m_Result := Some a\<rparr>), w')
      | (Raise (BSAExc e), w') \<Rightarrow>
          (SetErrorMessage (what e)
             (self\<lparr>m_ErrorCode := code e, m_Errno := sysError e, m_SysCall := Valid (sysCall e)\<rparr>), w')
      | (Raise (StdExc msg), w') \<Rightarrow> (SetErrorMessage (Some msg) self, w'))"

definition LoadWorker_HandleOKCallback :: "LoadWorker \<Rightarrow> fault + js_value list list" where
  "LoadWorker_HandleOKCallback self =
     (case m_Result self of None \<Rightarrow> Inl NullPointer | Some a \<Rightarrow> Inr [[Null, Wire a]])"

definition LoadWorker_HandleErrorCallback :: "LoadWorker \<Rightarrow> fault + js_value list list" where
  "LoadWorker_HandleErrorCallback self =
     (if m_ErrorCode self = ERROR_ACCESSFAILED \<or> m_ErrorCode self = ERROR_FILENOTFOUND
      then (case m_SysCall self of
              Valid sc \<Rightarrow> Inr [[ErrnoException (m_Errno self) sc]]
            | Dangling \<Rightarrow> Inl WildPointer)
      else Inr [[Error (ErrorMessage self)]])"

definition LoadWorker_WorkComplete :: "LoadWorker \<Rightarrow> fault + js_value list list" where
  "LoadWorker_WorkComplete self =
     (if errmsg self = None then LoadWorker_HandleOKCallback self
      else LoadWorker_HandleErrorCallback self)"

definition LoadWorker_queue ::
  "'fs platform \<Rightarrow> LoadWorker \<Rightarrow> 'fs world \<Rightarrow> (fault + js_value list list) \<times> 'fs world" where
  "LoadWorker_queue P self w =
     (case LoadWorker_Execute P None self w of
        (Inl x, w') \<Rightarrow> (Inl x, w')
      | (Inr self', w') \<Rightarrow> (LoadWorker_WorkComplete self', w'))"

text \<open>\<open>loadBSA\<close> and \<open>createBSA\<close>, lines 266 to 280.\<close>

definition loadBSA ::
  "'fs platform \<Rightarrow> LoadWorker \<Rightarrow> string \<Rightarrow> bool \<Rightarrow> 'fs world
     \<Rightarrow> (fault + js_value list list) \<times> 'fs world" where
  "loadBSA P storage fileName testHashes w =
     LoadWorker_queue P (LoadWorker_new storage fileName testHashes False) w"

definition createBSA ::
  "'fs platform \<Rightarrow> LoadWorker \<Rightarrow> string \<Rightarrow> 'fs world \<Rightarrow> (fault + js_value list list) \<times> 'fs world" where
  "createBSA P storage fileName w =
     LoadWorker_queue P (LoadWorker_new storage fileName False True) w"

section \<open>Auxiliary notions and concrete inputs\<close>

text \<open>
  An error object, as opposed to \<open>null\<close> and to an archive handle: an \<open>Error\<close> made of a
  message that is not the null pointer, or an errno exception.
\<close>

fun is_error :: "js_value \<Rightarrow> bool" where
  "is_error (Error (Some msg)) = True"
| "is_error (ErrnoException n sc) = True"
| "is_error v = False"

text \<open>
  A small engine on which the theorems below are instantiated. It reads every path except
  three: \<open>missing.bsa\<close> does not exist (\<open>errno\<close> 2), \<open>locked.bsa\<close> cannot be opened
  (\<open>errno\<close> 13) and \<open>corrupt.bsa\<close> has broken contents. A path with the byte \<open>0xFF\<close> is not
  UTF-8, and \<open>toWC\<close> raises on it. \<open>extractAll\<close> asks the predicate about each file of the
  root folder and stops with \<open>ERROR_CANCELED\<close> when it answers no.
\<close>

definition demo_tree :: Folder where
  "demo_tree =
     Folder []
       [\<lparr>file_name = ''readme.txt'', file_source = ContainerOffset 64, file_compressed = False\<rparr>]
       [Folder ''meshes''
          [\<lparr>file_name = ''a.nif'', file_source = ContainerOffset 128, file_compressed = True\<rparr>,
           \<lparr>file_name = ''b.nif'', file_source = ContainerOffset 256, file_compressed = True\<rparr>]
          [Folder ''armor''
             [\<lparr>file_name = ''c.nif'', file_source = ContainerOffset 512, file_compressed = True\<rparr>]
             []],
        Folder ''textures'' [] []]"

definition demo_failure :: "string \<Rightarrow> bool \<Rightarrow> (EErrorCode \<times> int) option" where
  "demo_failure path testHashes =
     (if path = ''missing.bsa'' then Some (ERROR_FILENOTFOUND, 2)
      else if path = ''locked.bsa'' then Some (ERROR_ACCESSFAILED, 13)
      else if path = ''corrupt.bsa''
        then Some (if testHashes then ERROR_INVALIDHASHES else ERROR_INVALIDDATA, 0)
      else if path = ''odd.bsa'' then Some (ERROR_UNNAMED 99, 0)
      else None)"

definition demo_platform :: "unit platform" where
  "demo_platform =
     \<lparr>eng_new = \<lparr>a_type = TYPE_SKYRIM, a_root = Folder [] [] []\<rparr>,
      toWC = (\<lambda>s. if CHR 0xFF \<in> set s then Inl ''string conversion failed'' else Inr s),
      eng_read = (\<lambda>a path testHashes w.
        case demo_failure path testHashes of
          Some (err, n) \<Rightarrow> (err, a, w\<lparr>errno := n\<rparr>)
        | None \<Rightarrow> (ERROR_NONE, \<lparr>a_type = TYPE_OBLIVION, a_root = demo_tree\<rparr>, w)),
      eng_write = (\<lambda>a path w.
        case demo_failure path False of
          Some (err, n) \<Rightarrow> (err, w\<lparr>errno := n\<rparr>)
        | None \<Rightarrow> (ERROR_NONE, w)),
      eng_extract = (\<lambda>a f dir w.
        case demo_failure dir False of
          Some (err, n) \<Rightarrow> (err, w\<lparr>errno := n\<rparr>)
        | None \<Rightarrow> (ERROR_NONE, w)),
      eng_extractAll = (\<lambda>a dir progress w.
        if list_ex (\<lambda>(i, f). \<not> progress (int i) (file_name f)) (enumerate 0 (m_Files (a_root a)))
        then (ERROR_CANCELED, w)
        else case demo_failure dir False of
          Some (err, n) \<Rightarrow> (err, w\<lparr>errno := n\<rparr>)
        | None \<Rightarrow> (ERROR_NONE, w))\<rparr>"

definition demo_world :: "unit world" where
  "demo_world = \<lparr>files = (), errno = 0\<rparr>"

definition demo_archive :: BSArchive where
  "demo_archive = \<lparr>m_Name = ''data.bsa'', m_Wrapped = \<lparr>a_type = TYPE_OBLIVION, a_root = demo_tree\<rparr>\<rparr>"

text \<open>
  Storage for a \<open>LoadWorker\<close> that holds what an earlier object left there, with a
  pointer to a string where \<open>m_SysCall\<close> will be.
\<close>

definition demo_storage :: "EErrorCode \<Rightarrow> LoadWorker" where
  "demo_storage c =
     \<lparr>errmsg = Some ''stale'', m_Result = None, m_OutputDirectory = ''stale'',
      m_ErrorCode = c, m_Errno = 7, m_SysCall = Valid (Some ''stale''),
      m_TestHashes = True, m_Create = True\<rparr>"

section \<open>The mapping of error codes\<close>

text \<open>Only the success code has no description.\<close>

lemma convertErrorCode_None_iff: "(convertErrorCode c = None) = (c = ERROR_NONE)"
  by (cases c) simp_all

lemma convertErrorCode_Some: "c \<noteq> ERROR_NONE \<Longrightarrow> \<exists>msg. convertErrorCode c = Some msg"
  using convertErrorCode_None_iff [of c] by (cases "convertErrorCode c") simp_all

lemma convertErrorCode_named_or_unknown:
  "c \<in> {ERROR_NONE, ERROR_FILENOTFOUND, ERROR_ACCESSFAILED, ERROR_CANCELED, ERROR_INVALIDHASHES,
         ERROR_SOURCEFILEMISSING, ERROR_INVALIDDATA, ERROR_ZLIBINITFAILED}
   \<or> convertErrorCode c = Some ''unknown''"
  by (cases c) simp_all

text \<open>
  C2: \<open>convertErrorCode\<close> is defined on every engine code. Each of the seven named failure
  codes has its fixed description, \<open>ERROR_NONE\<close> has none (a null pointer), and a code that
  is none of the eight named ones is described as "unknown".
\<close>

theorem convertErrorCode_total_mapping:
  "convertErrorCode ERROR_ACCESSFAILED = Some ''access failed''
   \<and> convertErrorCode ERROR_CANCELED = Some ''canceled''
   \<and> convertErrorCode ERROR_FILENOTFOUND = Some ''file not found''
   \<and> convertErrorCode ERROR_INVALIDDATA = Some ''invalid data''
   \<and> convertErrorCode ERROR_INVALIDHASHES = Some ''invalid hashes''
   \<and> convertErrorCode ERROR_SOURCEFILEMISSING = Some ''source file missing''
   \<and> convertErrorCode ERROR_ZLIBINITFAILED = Some ''zlib init failed''
   \<and> convertErrorCode ERROR_NONE = None
   \<and> (\<forall>c. c \<in> {ERROR_NONE, ERROR_FILENOTFOUND, ERROR_ACCESSFAILED, ERROR_CANCELED,
               ERROR_INVALIDHASHES, ERROR_SOURCEFILEMISSING, ERROR_INVALIDDATA,
               ERROR_ZLIBINITFAILED}
          \<or> convertErrorCode c = Some ''unknown'')"
  using convertErrorCode_named_or_unknown by simp

theorem convertErrorCode_total_mapping_witness:
  "convertErrorCode (ERROR_UNNAMED 99) = Some ''unknown''
   \<and> convertErrorCode (ERROR_UNNAMED (- 1)) = Some ''unknown''
   \<and> convertErrorCode ERROR_NONE = None"
proof -
  have "\<forall>c. c \<in> {ERROR_NONE, ERROR_FILENOTFOUND, ERROR_ACCESSFAILED, ERROR_CANCELED,
               ERROR_INVALIDHASHES, ERROR_SOURCEFILEMISSING, ERROR_INVALIDDATA,
               ERROR_ZLIBINITFAILED}
          \<or> convertErrorCode c = Some ''unknown''"
    and n: "convertErrorCode ERROR_NONE = None"
    using convertErrorCode_total_mapping by blast+
  then have "\<And>c. c \<notin> {ERROR_NONE, ERROR_FILENOTFOUND, ERROR_ACCESSFAILED, ERROR_CANCELED,
               ERROR_INVALIDHASHES, ERROR_SOURCEFILEMISSING, ERROR_INVALIDDATA,
               ERROR_ZLIBINITFAILED} \<Longrightarrow> convertErrorCode c = Some ''unknown''"
    by blast
  from this [of "ERROR_UNNAMED 99"] this [of "ERROR_UNNAMED (- 1)"] n show ?thesis
    by simp
qed

section \<open>Writing an archive\<close>

text \<open>The four ways \<open>BSArchive::write\<close> can end, by the engine's code and the calling context.\<close>

lemma write_background:
  assumes "eng_write P (m_Wrapped self) (m_Name self) w = (err, w')" and "err \<noteq> ERROR_NONE"
  shows "BSArchive_write P None self w =
           (Raise (BSAExc (BSAException err (errno w') (Some ''write''))), w')"
  using assms by (simp add: BSArchive_write_def BSAException_new_def)

lemma write_direct_errno:
  assumes "eng_write P (m_Wrapped self) (m_Name self) w = (err, w')"
    and "err = ERROR_ACCESSFAILED \<or> err = ERROR_FILENOTFOUND"
  shows "BSArchive_write P (Some isolate) self w =
           (ReturnPending (ErrnoException (errno w') (Some ''write'')) (), w')"
  using assms by (auto simp add: BSArchive_write_def)

lemma write_direct_plain:
  assumes "eng_write P (m_Wrapped self) (m_Name self) w = (err, w')"
    and "err \<notin> {ERROR_NONE, ERROR_ACCESSFAILED, ERROR_FILENOTFOUND}"
  shows "\<exists>msg. convertErrorCode err = Some msg \<and>
           BSArchive_write P (Some isolate) self w = (ReturnPending (Error (Some msg)) (), w')"
proof -
  from assms(2) have "err \<noteq> ERROR_NONE" by simp
  then obtain msg where "convertErrorCode err = Some msg"
    using convertErrorCode_Some by blast
  with assms show ?thesis by (simp add: BSArchive_write_def)
qed

lemma write_success:
  assumes "eng_write P (m_Wrapped self) (m_Name self) w = (ERROR_NONE, w')"
  shows "BSArchive_write P GetCurrent self w = (Return (), w')"
  using assms by (simp add: BSArchive_write_def)

text \<open>
  C3: let the engine's write return the code \<open>err\<close> and leave the world \<open>w'\<close>. When \<open>err\<close> is
  not the success code and there is no isolate (a background thread), \<open>write\<close> throws a
  \<open>BSAException\<close> with that code, the \<open>errno\<close> of \<open>w'\<close> and the system call name "write".
  Called directly, it schedules an errno exception for "write" when the code is
  access-failed or file-not-found, and a plain error with the code's description for every
  other failure code. On the success code it returns with nothing signalled, in either
  context.
\<close>

theorem write_signals_failure:
  assumes "eng_write P (m_Wrapped self) (m_Name self) w = (err, w')"
  shows "(err \<noteq> ERROR_NONE \<longrightarrow>
            BSArchive_write P None self w =
              (Raise (BSAExc (BSAException err (errno w') (Some ''write''))), w'))
       \<and> (err = ERROR_ACCESSFAILED \<or> err = ERROR_FILENOTFOUND \<longrightarrow>
            BSArchive_write P (Some isolate) self w =
              (ReturnPending (ErrnoException (errno w') (Some ''write'')) (), w'))
       \<and> (err \<notin> {ERROR_NONE, ERROR_ACCESSFAILED, ERROR_FILENOTFOUND} \<longrightarrow>
            (\<exists>msg. convertErrorCode err = Some msg \<and>
               BSArchive_write P (Some isolate) self w = (ReturnPending (Error (Some msg)) (), w')))
       \<and> (err = ERROR_NONE \<longrightarrow>
            (\<forall>GetCurrent. BSArchive_write P GetCurrent self w = (Return (), w')))"
  using write_background [OF assms] write_direct_errno [OF assms] write_direct_plain [OF assms]
    write_success [of P self w w'] assms
  by blast

text \<open>The demonstration engine refuses to write \<open>locked.bsa\<close> and \<open>corrupt.bsa\<close>.\<close>

lemma demo_write_locked:
  "eng_write demo_platform (m_Wrapped (demo_archive\<lparr>m_Name := ''locked.bsa''\<rparr>))
     (m_Name (demo_archive\<lparr>m_Name := ''locked.bsa''\<rparr>)) demo_world
   = (ERROR_ACCESSFAILED, demo_world\<lparr>errno := 13\<rparr>)"
  by (simp add: demo_platform_def demo_failure_def)

lemma demo_write_corrupt:
  "eng_write demo_platform (m_Wrapped (demo_archive\<lparr>m_Name := ''corrupt.bsa''\<rparr>))
     (m_Name (demo_archive\<lparr>m_Name := ''corrupt.bsa''\<rparr>)) demo_world
   = (ERROR_INVALIDDATA, demo_world\<lparr>errno := 0\<rparr>)"
  by (simp add: demo_platform_def demo_failure_def)

lemma demo_write_ok:
  "eng_write demo_platform (m_Wrapped demo_archive) (m_Name demo_archive) demo_world
   = (ERROR_NONE, demo_world)"
  by (simp add: demo_platform_def demo_failure_def demo_archive_def)

theorem write_signals_failure_witness:
  "BSArchive_write demo_platform None (demo_archive\<lparr>m_Name := ''locked.bsa''\<rparr>) demo_world =
     (Raise (BSAExc (BSAException ERROR_ACCESSFAILED 13 (Some ''write''))), demo_world\<lparr>errno := 13\<rparr>)
   \<and> BSArchive_write demo_platform (Some Isolate) (demo_archive\<lparr>m_Name := ''locked.bsa''\<rparr>) demo_world =
     (ReturnPending (ErrnoException 13 (Some ''write'')) (), demo_world\<lparr>errno := 13\<rparr>)
   \<and> BSArchive_write demo_platform (Some Isolate) (demo_archive\<lparr>m_Name := ''corrupt.bsa''\<rparr>) demo_world =
     (ReturnPending (Error (Some ''invalid data'')) (), demo_world\<lparr>errno := 0\<rparr>)
   \<and> BSArchive_write demo_platform None demo_archive demo_world = (Return (), demo_world)
   \<and> BSArchive_write demo_platform (Some Isolate) demo_archive demo_world = (Return (), demo_world)"
  using write_signals_failure [OF demo_write_locked, of Isolate]
    write_signals_failure [OF demo_write_corrupt, of Isolate]
    write_signals_failure [OF demo_write_ok, of Isolate]
  by simp

section \<open>The format variant\<close>

text \<open>
  C5: \<open>getType\<close> answers "oblivion" when the engine reports the Oblivion variant and "skyrim"
  when it reports the Skyrim variant; the two Fallout enumerators are that same variant
  and are answered "skyrim" as well. For every other value of the engine's enum the answer
  is the null pointer.
\<close>

theorem getType_variants:
  "(Archive_getType (m_Wrapped self) = TYPE_OBLIVION \<longrightarrow> getType self = Some ''oblivion'')
   \<and> (Archive_getType (m_Wrapped self) = TYPE_SKYRIM \<longrightarrow> getType self = Some ''skyrim'')
   \<and> (Archive_getType (m_Wrapped self) = TYPE_FALLOUT3
        \<or> Archive_getType (m_Wrapped self) = TYPE_FALLOUTNV \<longrightarrow> getType self = Some ''skyrim'')
   \<and> (Archive_getType (m_Wrapped self) \<notin> {TYPE_OBLIVION, TYPE_SKYRIM} \<longrightarrow> getType self = None)"
  by (cases "Archive_getType (m_Wrapped self)")
    (simp_all add: getType_def TYPE_FALLOUT3_def TYPE_FALLOUTNV_def)

theorem getType_variants_witness:
  "getType demo_archive = Some ''oblivion''
   \<and> getType (demo_archive\<lparr>m_Wrapped := eng_new demo_platform\<rparr>) = Some ''skyrim''
   \<and> getType (demo_archive\<lparr>m_Wrapped := \<lparr>a_type = TYPE_FALLOUTNV, a_root = demo_tree\<rparr>\<rparr>)
       = Some ''skyrim''
   \<and> getType (demo_archive\<lparr>m_Wrapped := \<lparr>a_type = TYPE_UNNAMED 7, a_root = demo_tree\<rparr>\<rparr>) = None"
  using getType_variants [of demo_archive]
    getType_variants [of "demo_archive\<lparr>m_Wrapped := eng_new demo_platform\<rparr>"]
    getType_variants [of "demo_archive\<lparr>m_Wrapped := \<lparr>a_type = TYPE_FALLOUTNV, a_root = demo_tree\<rparr>\<rparr>"]
    getType_variants [of "demo_archive\<lparr>m_Wrapped := \<lparr>a_type = TYPE_UNNAMED 7, a_root = demo_tree\<rparr>\<rparr>"]
  by (simp add: demo_archive_def demo_platform_def Archive_getType_def)

section \<open>Counting files\<close>

text \<open>The running total of the loop is the sum of what it adds.\<close>

lemma fold_running_total:
  "fold (\<lambda>sub result. result + g sub) subs (acc :: 32 word) = acc + sum_list (map g subs)"
  by (induction subs arbitrary: acc) (simp_all add: add.assoc)

lemma Folder_countFiles_sum:
  "Folder_countFiles F =
     Folder_getNumFiles F + sum_list (map Folder_countFiles (m_SubFolders F))"
  by (cases F) (simp add: fold_running_total Folder_getNumFiles_def)

text \<open>The recursive count is the number of files of the subtree.\<close>

lemma Folder_countFiles_all_files: "Folder_countFiles F = of_nat (length (all_files F))"
proof (induction F)
  case (Folder n fs subs)
  have "sum_list (map Folder_countFiles subs)
          = (of_nat (sum_list (map (\<lambda>s. length (all_files s)) subs)) :: 32 word)"
    using Folder.IH by (induction subs) simp_all
  then show ?case
    by (simp add: fold_running_total length_concat comp_def)
qed

lemma length_all_files:
  "length (all_files F) =
     length (m_Files F) + sum_list (map (\<lambda>sub. length (all_files sub)) (m_SubFolders F))"
  by (cases F) (simp add: length_concat comp_def)

lemma countFiles_no_wrap:
  "length (all_files (m_Folder F)) < 2 ^ 32 \<Longrightarrow>
     unat (countFiles F) = length (all_files (m_Folder F))"
  by (simp add: countFiles_def Folder_countFiles_all_files unsigned_of_nat take_bit_nat_eq_self)

text \<open>
  \<open>subFolders\<close> lists what \<open>getSubFolder\<close> returns for the indices below
  \<open>getNumSubFolders\<close>.
\<close>

lemma subFolders_getSubFolder:
  "i < length (subFolders F) \<Longrightarrow> getSubFolder F i = Inr (subFolders F ! i)"
  by (simp add: subFolders_def getSubFolder_def Folder_getSubFolder_def)

lemma getSubFolder_out_of_range:
  "length (subFolders F) \<le> i \<Longrightarrow> getSubFolder F i = Inl OutOfRange"
  by (simp add: subFolders_def getSubFolder_def Folder_getSubFolder_def)

lemma getNumSubFolders_length:
  "length (subFolders F) < 2 ^ 32 \<Longrightarrow> unat (getNumSubFolders F) = length (subFolders F)"
  by (simp add: subFolders_def getNumSubFolders_def Folder_getNumSubFolders_def
      unsigned_of_nat take_bit_nat_eq_self)

text \<open>
  C7: in an archive that was loaded successfully, every folder of the tree under the root
  has a recursive file count equal to its direct file count plus the sum of the recursive
  file counts of its direct subfolders (in \<open>unsigned int\<close> arithmetic, as the counters are).
\<close>

theorem countFiles_is_direct_plus_subfolders:
  assumes "fst (BSArchive_new P GetCurrent fileName testHashes False w) = Return self"
    and "F \<in> set (all_folders (m_Folder (getRoot self)))"
  shows "countFiles (BSAFolder F) =
           getNumFiles (BSAFolder F) + sum_list (map countFiles (subFolders (BSAFolder F)))"
  using Folder_countFiles_sum [of F]
  by (simp add: countFiles_def getNumFiles_def subFolders_def comp_def)

lemma demo_load_ok:
  "fst (BSArchive_new demo_platform None ''data.bsa'' True False demo_world) = Return demo_archive"
  by (simp add: BSArchive_new_def BSArchive_read_def demo_platform_def demo_failure_def
      demo_archive_def)

theorem countFiles_is_direct_plus_subfolders_witness:
  "fst (BSArchive_new demo_platform None ''data.bsa'' True False demo_world) = Return demo_archive
   \<and> m_SubFolders demo_tree ! 0 \<in> set (all_folders (m_Folder (getRoot demo_archive)))
   \<and> countFiles (BSAFolder (m_SubFolders demo_tree ! 0)) = 3
   \<and> getNumFiles (BSAFolder (m_SubFolders demo_tree ! 0)) = 2
   \<and> map countFiles (subFolders (BSAFolder (m_SubFolders demo_tree ! 0))) = [1]
   \<and> countFiles (getRoot demo_archive) = 4"
proof -
  have m: "m_SubFolders demo_tree ! 0 \<in> set (all_folders (m_Folder (getRoot demo_archive)))"
    by (simp add: demo_tree_def demo_archive_def getRoot_def Archive_getRoot_def)
  have r: "m_Folder (getRoot demo_archive) \<in> set (all_folders (m_Folder (getRoot demo_archive)))"
    by (cases "m_Folder (getRoot demo_archive)") simp
  have n: "getNumFiles (BSAFolder (m_SubFolders demo_tree ! 0)) = 2"
    by (simp add: demo_tree_def getNumFiles_def Folder_getNumFiles_def)
  have s: "map countFiles (subFolders (BSAFolder (m_SubFolders demo_tree ! 0))) = [1]"
    by (simp add: demo_tree_def subFolders_def countFiles_def)
  have n0: "getNumFiles (getRoot demo_archive) = 1"
    by (simp add: demo_tree_def demo_archive_def getRoot_def Archive_getRoot_def getNumFiles_def
        Folder_getNumFiles_def)
  have s0: "map countFiles (subFolders (getRoot demo_archive)) = [3, 0]"
    by (simp add: demo_tree_def demo_archive_def getRoot_def Archive_getRoot_def subFolders_def
        countFiles_def)
  from countFiles_is_direct_plus_subfolders [OF demo_load_ok m]
    countFiles_is_direct_plus_subfolders [OF demo_load_ok r]
    demo_load_ok m n s n0 s0
  show ?thesis by simp
qed

section \<open>Operations that do not fail\<close>

text \<open>
  C8: constructing an archive with \<open>create\<close> set returns the handle of an empty archive
  for the given path, leaves the world as it was, and does not depend on the engine's read
  or on the path conversion, which it never calls; \<open>createBSA\<close> therefore always hands the
  caller that handle. \<open>getRoot\<close> returns the handle of the root folder. \<open>createFile\<close> returns
  a handle of a file entry staged with the given external path, whatever the path is;
  none of the three looks at the file system.
\<close>

theorem construction_without_io:
  "BSArchive_new P GetCurrent fileName testHashes True w =
     (Return \<lparr>m_Name = fileName, m_Wrapped = eng_new P\<rparr>, w)
   \<and> BSArchive_new (P\<lparr>toWC := conv, eng_read := rd\<rparr>) GetCurrent fileName testHashes True w =
       BSArchive_new P GetCurrent fileName testHashes True w
   \<and> createBSA P storage fileName w =
       (Inr [[Null, Wire \<lparr>m_Name = fileName, m_Wrapped = eng_new P\<rparr>]], w)
   \<and> getRoot self = BSAFolder (a_root (m_Wrapped self))
   \<and> createFile self name sourcePath compressed =
       BSAFile (Some \<lparr>file_name = name, file_source = ExternalPath sourcePath,
                      file_compressed = compressed\<rparr>)"
  by (simp add: BSArchive_new_def createBSA_def LoadWorker_queue_def LoadWorker_Execute_def
      LoadWorker_new_def LoadWorker_WorkComplete_def LoadWorker_HandleOKCallback_def
      getRoot_def Archive_getRoot_def createFile_def Archive_createFile_def)

theorem construction_without_io_witness:
  "createBSA demo_platform (demo_storage ERROR_NONE) ''missing.bsa'' demo_world =
     (Inr [[Null, Wire \<lparr>m_Name = ''missing.bsa'',
                        m_Wrapped = \<lparr>a_type = TYPE_SKYRIM, a_root = Folder [] [] []\<rparr>\<rparr>]], demo_world)
   \<and> getWrappee (createFile demo_archive ''a.txt'' ''/no/such/file'' False) =
       Some \<lparr>file_name = ''a.txt'', file_source = ExternalPath ''/no/such/file'',
             file_compressed = False\<rparr>"
  using construction_without_io [where P = demo_platform and fileName = "''missing.bsa''"
      and w = demo_world and storage = "demo_storage ERROR_NONE" and self = demo_archive
      and name = "''a.txt''" and sourcePath = "''/no/such/file''" and compressed = False]
  by (simp add: demo_platform_def)

section \<open>Extraction\<close>

text \<open>A code has a description exactly when it is not the success code.\<close>

lemma convertErrorCode_Some_iff: "(\<exists>msg. convertErrorCode c = Some msg) = (c \<noteq> ERROR_NONE)"
  using convertErrorCode_None_iff [of c] by (cases "convertErrorCode c") simp_all

text \<open>
  What \<open>Execute\<close> leaves in a fresh worker, given the engine's answer: the description of
  the code as error message, which is null exactly for the success code.
\<close>

lemma SetErrorMessage_convertErrorCode:
  "c \<noteq> ERROR_NONE \<Longrightarrow>
     SetErrorMessage (convertErrorCode c) self = Inr (self\<lparr>errmsg := convertErrorCode c\<rparr>)"
  using convertErrorCode_Some [of c] by (auto simp add: SetErrorMessage_def)

lemma ExtractWorker_new_errmsg:
  "(ExtractWorker_new a fp dir)\<lparr>errmsg := None\<rparr> = ExtractWorker_new a fp dir"
  by (simp add: ExtractWorker_new_def)

lemma ExtractWorker_Execute_file:
  "ExtractWorker_Execute P (ExtractWorker_new a (Some f) dir) w =
     (Inr ((ExtractWorker_new a (Some f) dir)
             \<lparr>errmsg := convertErrorCode (fst (eng_extract P a f dir w))\<rparr>),
      snd (eng_extract P a f dir w))"
proof (cases "eng_extract P a f dir w")
  case (Pair c w')
  show ?thesis
  proof (cases "c = ERROR_NONE")
    case True
    with Pair show ?thesis
      by (simp add: ExtractWorker_Execute_def ExtractWorker_new_def)
  next
    case False
    with Pair show ?thesis
      by (simp add: ExtractWorker_Execute_def ExtractWorker_new_def
          SetErrorMessage_convertErrorCode)
  qed
qed

lemma ExtractWorker_Execute_all:
  "ExtractWorker_Execute P (ExtractWorker_new a None dir) w =
     (Inr ((ExtractWorker_new a None dir)
             \<lparr>errmsg := convertErrorCode (fst (eng_extractAll P a dir (\<lambda>i name. True) w))\<rparr>),
      snd (eng_extractAll P a dir (\<lambda>i name. True) w))"
proof (cases "eng_extractAll P a dir (\<lambda>i name. True) w")
  case (Pair c w')
  show ?thesis
  proof (cases "c = ERROR_NONE")
    case True
    with Pair show ?thesis
      by (simp add: ExtractWorker_Execute_def ExtractWorker_new_def)
  next
    case False
    with Pair show ?thesis
      by (simp add: ExtractWorker_Execute_def ExtractWorker_new_def
          SetErrorMessage_convertErrorCode)
  qed
qed

text \<open>What the callback then receives.\<close>

lemma ExtractWorker_WorkComplete_result:
  "ExtractWorker_WorkComplete (wk\<lparr>errmsg := convertErrorCode c\<rparr>) =
     [[if c = ERROR_NONE then Null else Error (convertErrorCode c)]]"
  using convertErrorCode_None_iff [of c]
  by (simp add: ExtractWorker_WorkComplete_def ExtractWorker_HandleOKCallback_def
      AsyncWorker_HandleErrorCallback_def ErrorMessage_def)

lemma extractFile_result:
  "getWrappee bsaFile = Some f \<Longrightarrow>
   extractFile P self bsaFile dir w =
     (Inr [[if fst (eng_extract P (m_Wrapped self) f dir w) = ERROR_NONE then Null
            else Error (convertErrorCode (fst (eng_extract P (m_Wrapped self) f dir w)))]],
      snd (eng_extract P (m_Wrapped self) f dir w))"
  by (simp add: extractFile_def ExtractWorker_queue_def ExtractWorker_Execute_file
      ExtractWorker_WorkComplete_result)

lemma extractAll_result:
  "extractAll P self dir w =
     (Inr [[if fst (eng_extractAll P (m_Wrapped self) dir (\<lambda>i name. True) w) = ERROR_NONE then Null
            else Error (convertErrorCode
                   (fst (eng_extractAll P (m_Wrapped self) dir (\<lambda>i name. True) w)))]],
      snd (eng_extractAll P (m_Wrapped self) dir (\<lambda>i name. True) w))"
  by (simp add: extractAll_def ExtractWorker_queue_def ExtractWorker_Execute_all
      ExtractWorker_WorkComplete_result)

text \<open>A handle that wraps the null pointer makes \<open>extractFile\<close> behave as \<open>extractAll\<close>.\<close>

lemma extractFile_null_handle:
  "getWrappee bsaFile = None \<Longrightarrow> extractFile P self bsaFile dir w = extractAll P self dir w"
  by (simp add: extractFile_def extractAll_def)

text \<open>The handles this layer hands out wrap a file.\<close>

lemma createFile_not_null: "getWrappee (createFile self name sourcePath compressed) \<noteq> None"
  by (simp add: createFile_def)

lemma getFile_not_null:
  "i < length (m_Files (m_Folder folder)) \<Longrightarrow>
     getFile folder i = Inr (BSAFile (Some (m_Files (m_Folder folder) ! i)))"
  by (simp add: getFile_def Folder_getFile_def)

text \<open>
  C6: there is one progress predicate, true of every index and name, such that for every
  engine \<open>extractAll\<close> is the engine's extract-all run with that predicate: \<open>Execute\<close> of the
  worker that \<open>extractAll\<close> submits leaves the description of exactly that call's code as
  error message, and the callback receives \<open>null\<close> or an error accordingly.
\<close>

theorem extractAll_progress_always_continues:
  "\<exists>progress.
     (\<forall>i name. progress i name = True)
     \<and> (\<forall>(P :: 'fs platform) self dir w.
          ExtractWorker_Execute P (ExtractWorker_new (m_Wrapped self) None dir) w =
            (Inr ((ExtractWorker_new (m_Wrapped self) None dir)
                    \<lparr>errmsg := convertErrorCode
                        (fst (eng_extractAll P (m_Wrapped self) dir progress w))\<rparr>),
             snd (eng_extractAll P (m_Wrapped self) dir progress w))
          \<and> extractAll P self dir w =
            (Inr [[if fst (eng_extractAll P (m_Wrapped self) dir progress w) = ERROR_NONE then Null
                   else Error (convertErrorCode
                          (fst (eng_extractAll P (m_Wrapped self) dir progress w)))]],
             snd (eng_extractAll P (m_Wrapped self) dir progress w)))"
  by (rule exI [of _ "\<lambda>i name. True"]) (simp add: ExtractWorker_Execute_all extractAll_result)

text \<open>
  On the demonstration engine, which gives up with \<open>ERROR_CANCELED\<close> as soon as the
  predicate says no, \<open>extractAll\<close> is not cancelled.
\<close>

theorem extractAll_progress_always_continues_witness:
  "fst (eng_extractAll demo_platform (m_Wrapped demo_archive) ''out'' (\<lambda>i name. False) demo_world)
     = ERROR_CANCELED
   \<and> extractAll demo_platform demo_archive ''out'' demo_world = (Inr [[Null]], demo_world)"
proof -
  from extractAll_progress_always_continues [where 'fs = unit]
  obtain progress where p: "\<And>i name. progress i name = True"
    and e: "\<And>(P :: unit platform) self dir w. extractAll P self dir w =
            (Inr [[if fst (eng_extractAll P (m_Wrapped self) dir progress w) = ERROR_NONE then Null
                   else Error (convertErrorCode
                          (fst (eng_extractAll P (m_Wrapped self) dir progress w)))]],
             snd (eng_extractAll P (m_Wrapped self) dir progress w))"
    by blast
  have "eng_extractAll demo_platform (m_Wrapped demo_archive) ''out'' progress demo_world
          = (ERROR_NONE, demo_world)"
    by (simp add: demo_platform_def demo_archive_def demo_tree_def demo_failure_def p)
  with e [of demo_platform demo_archive "''out''" demo_world]
  have "extractAll demo_platform demo_archive ''out'' demo_world = (Inr [[Null]], demo_world)"
    by simp
  moreover have "fst (eng_extractAll demo_platform (m_Wrapped demo_archive) ''out''
                   (\<lambda>i name. False) demo_world) = ERROR_CANCELED"
    by (simp add: demo_platform_def demo_archive_def demo_tree_def)
  ultimately show ?thesis by simp
qed

text \<open>
  C9: the worker tests its file reference. A handle made by \<open>createFile\<close> or by \<open>getFile\<close>
  wraps a file, and for a handle that wraps the file \<open>f\<close> the worker of \<open>extractFile\<close> calls
  the engine's single-file extract on \<open>f\<close>; the worker of \<open>extractAll\<close> has the null
  reference and calls the engine's extract-all. Either way \<open>Execute\<close> sets an error
  message if and only if the engine's code is not the success code, and the message is
  the description of that code.
\<close>

theorem ExtractWorker_dispatches_on_file:
  "getWrappee (createFile self0 name sourcePath compressed) \<noteq> None
   \<and> (i < length (m_Files (m_Folder folder)) \<longrightarrow>
        (\<exists>g. getFile folder i = Inr (BSAFile (Some g))))
   \<and> (getWrappee bsaFile = Some f \<longrightarrow>
        (\<exists>wk. ExtractWorker_Execute P (ExtractWorker_new (m_Wrapped self) (getWrappee bsaFile) dir) w
                = (Inr wk, snd (eng_extract P (m_Wrapped self) f dir w))
            \<and> (errmsg wk \<noteq> None) = (fst (eng_extract P (m_Wrapped self) f dir w) \<noteq> ERROR_NONE)
            \<and> errmsg wk = convertErrorCode (fst (eng_extract P (m_Wrapped self) f dir w)))
        \<and> extractFile P self bsaFile dir w =
            (Inr [[if fst (eng_extract P (m_Wrapped self) f dir w) = ERROR_NONE then Null
                   else Error (convertErrorCode (fst (eng_extract P (m_Wrapped self) f dir w)))]],
             snd (eng_extract P (m_Wrapped self) f dir w)))
   \<and> (\<exists>wk. ExtractWorker_Execute P (ExtractWorker_new (m_Wrapped self) None dir) w
             = (Inr wk, snd (eng_extractAll P (m_Wrapped self) dir (\<lambda>i name. True) w))
         \<and> (errmsg wk \<noteq> None)
             = (fst (eng_extractAll P (m_Wrapped self) dir (\<lambda>i name. True) w) \<noteq> ERROR_NONE)
         \<and> errmsg wk
             = convertErrorCode (fst (eng_extractAll P (m_Wrapped self) dir (\<lambda>i name. True) w)))
   \<and> extractAll P self dir w =
       (Inr [[if fst (eng_extractAll P (m_Wrapped self) dir (\<lambda>i name. True) w) = ERROR_NONE
              then Null
              else Error (convertErrorCode
                     (fst (eng_extractAll P (m_Wrapped self) dir (\<lambda>i name. True) w)))]],
        snd (eng_extractAll P (m_Wrapped self) dir (\<lambda>i name. True) w))"
proof -
  have single: "\<exists>wk. ExtractWorker_Execute P (ExtractWorker_new (m_Wrapped self) (Some f) dir) w
                = (Inr wk, snd (eng_extract P (m_Wrapped self) f dir w))
            \<and> (errmsg wk \<noteq> None) = (fst (eng_extract P (m_Wrapped self) f dir w) \<noteq> ERROR_NONE)
            \<and> errmsg wk = convertErrorCode (fst (eng_extract P (m_Wrapped self) f dir w))"
    by (simp add: ExtractWorker_Execute_file convertErrorCode_Some_iff)
  have all: "\<exists>wk. ExtractWorker_Execute P (ExtractWorker_new (m_Wrapped self) None dir) w
             = (Inr wk, snd (eng_extractAll P (m_Wrapped self) dir (\<lambda>i name. True) w))
         \<and> (errmsg wk \<noteq> None)
             = (fst (eng_extractAll P (m_Wrapped self) dir (\<lambda>i name. True) w) \<noteq> ERROR_NONE)
         \<and> errmsg wk
             = convertErrorCode (fst (eng_extractAll P (m_Wrapped self) dir (\<lambda>i name. True) w))"
    by (simp add: ExtractWorker_Execute_all convertErrorCode_Some_iff)
  show ?thesis
    using single all createFile_not_null [of self0 name sourcePath compressed]
      getFile_not_null [of i folder] extractFile_result [of bsaFile f P self dir w]
      extractAll_result [of P self dir w]
    by simp
qed

theorem ExtractWorker_dispatches_on_file_witness:
  "getFile (getRoot demo_archive) 0 =
     Inr (BSAFile (Some \<lparr>file_name = ''readme.txt'', file_source = ContainerOffset 64,
                          file_compressed = False\<rparr>))
   \<and> extractFile demo_platform demo_archive
       (BSAFile (Some \<lparr>file_name = ''readme.txt'', file_source = ContainerOffset 64,
                        file_compressed = False\<rparr>)) ''out'' demo_world
       = (Inr [[Null]], demo_world)
   \<and> extractFile demo_platform demo_archive
       (BSAFile (Some \<lparr>file_name = ''readme.txt'', file_source = ContainerOffset 64,
                        file_compressed = False\<rparr>)) ''corrupt.bsa'' demo_world
       = (Inr [[Error (Some ''invalid data'')]], demo_world\<lparr>errno := 0\<rparr>)
   \<and> extractAll demo_platform demo_archive ''locked.bsa'' demo_world
       = (Inr [[Error (Some ''access failed'')]], demo_world\<lparr>errno := 13\<rparr>)"
proof -
  let ?f = "\<lparr>file_name = ''readme.txt'', file_source = ContainerOffset 64,
             file_compressed = False\<rparr>"
  have len: "0 < length (m_Files (m_Folder (getRoot demo_archive)))"
    and nth: "m_Files (m_Folder (getRoot demo_archive)) ! 0 = ?f"
    by (simp_all add: getRoot_def Archive_getRoot_def demo_archive_def demo_tree_def)
  have g: "getFile (getRoot demo_archive) 0 = Inr (BSAFile (Some ?f))"
    using ExtractWorker_dispatches_on_file [where i = 0 and folder = "getRoot demo_archive"]
      len nth getFile_not_null [OF len]
    by simp
  have w: "getWrappee (BSAFile (Some ?f)) = Some ?f" by simp
  have ok: "eng_extract demo_platform (m_Wrapped demo_archive) ?f ''out'' demo_world
              = (ERROR_NONE, demo_world)"
    and bad: "eng_extract demo_platform (m_Wrapped demo_archive) ?f ''corrupt.bsa'' demo_world
              = (ERROR_INVALIDDATA, demo_world\<lparr>errno := 0\<rparr>)"
    and allbad: "eng_extractAll demo_platform (m_Wrapped demo_archive) ''locked.bsa''
                   (\<lambda>i name. True) demo_world
              = (ERROR_ACCESSFAILED, demo_world\<lparr>errno := 13\<rparr>)"
    by (simp_all add: demo_platform_def demo_failure_def demo_archive_def demo_tree_def)
  from ExtractWorker_dispatches_on_file
         [where bsaFile = "BSAFile (Some ?f)" and f = ?f and P = demo_platform
            and self = demo_archive and dir = "''out''" and w = demo_world]
       ExtractWorker_dispatches_on_file
         [where bsaFile = "BSAFile (Some ?f)" and f = ?f and P = demo_platform
            and self = demo_archive and dir = "''corrupt.bsa''" and w = demo_world]
       ExtractWorker_dispatches_on_file
         [where P = demo_platform and self = demo_archive and dir = "''locked.bsa''"
            and w = demo_world]
       g w ok bad allbad
  show ?thesis by simp
qed

section \<open>Loading and creating an archive\<close>

lemmas LoadWorker_defs =
  loadBSA_def createBSA_def LoadWorker_queue_def LoadWorker_Execute_def LoadWorker_new_def
  LoadWorker_WorkComplete_def LoadWorker_HandleOKCallback_def LoadWorker_HandleErrorCallback_def
  BSArchive_new_def BSArchive_read_def BSAException_new_def what_def SetErrorMessage_def
  ErrorMessage_def

text \<open>The four ways a load can end, by what \<open>toWC\<close> and the engine's read do.\<close>

lemma loadBSA_success:
  assumes "toWC P fileName = Inr wide"
    and "eng_read P (eng_new P) wide testHashes w = (ERROR_NONE, a, w')"
  shows "loadBSA P storage fileName testHashes w =
           (Inr [[Null, Wire \<lparr>m_Name = fileName, m_Wrapped = a\<rparr>]], w')"
  using assms by (simp add: LoadWorker_defs)

lemma loadBSA_failure_errno:
  assumes "toWC P fileName = Inr wide"
    and "eng_read P (eng_new P) wide testHashes w = (err, a, w')"
    and "err = ERROR_ACCESSFAILED \<or> err = ERROR_FILENOTFOUND"
  shows "loadBSA P storage fileName testHashes w =
           (Inr [[ErrnoException (errno w') (Some ''write'')]], w')"
  using assms by (auto simp add: LoadWorker_defs)

lemma loadBSA_failure_plain:
  assumes "toWC P fileName = Inr wide"
    and "eng_read P (eng_new P) wide testHashes w = (err, a, w')"
    and "err \<notin> {ERROR_NONE, ERROR_ACCESSFAILED, ERROR_FILENOTFOUND}"
  shows "\<exists>msg. convertErrorCode err = Some msg \<and>
           loadBSA P storage fileName testHashes w = (Inr [[Error (Some msg)]], w')"
proof -
  from assms(3) have "err \<noteq> ERROR_NONE" by simp
  then obtain msg where "convertErrorCode err = Some msg"
    using convertErrorCode_Some by blast
  with assms show ?thesis by (simp add: LoadWorker_defs)
qed

text \<open>
  When \<open>toWC\<close> raises, \<open>Execute\<close> stores the message only, and the error is classified by
  what the storage of the worker held. If that names an errno exception and the stale
  \<open>m_SysCall\<close> addresses no string, the process faults and the callback is not called.
\<close>

lemma loadBSA_std_exception:
  assumes "toWC P fileName = Inl msg"
  shows "loadBSA P storage fileName testHashes w =
           (if m_ErrorCode storage = ERROR_ACCESSFAILED
               \<or> m_ErrorCode storage = ERROR_FILENOTFOUND
            then (case m_SysCall storage of
                    Valid sc \<Rightarrow> Inr [[ErrnoException (m_Errno storage) sc]]
                  | Dangling \<Rightarrow> Inl WildPointer)
            else Inr [[Error (Some msg)]], w)"
  using assms by (simp add: LoadWorker_defs split: char_pointer.split)

lemma createBSA_result:
  "createBSA P storage fileName w =
     (Inr [[Null, Wire \<lparr>m_Name = fileName, m_Wrapped = eng_new P\<rparr>]], w)"
  by (simp add: LoadWorker_defs)

text \<open>A failure code of the engine is reported as an error object.\<close>

lemma is_error_convertErrorCode: "c \<noteq> ERROR_NONE \<Longrightarrow> is_error (Error (convertErrorCode c))"
  using convertErrorCode_Some [of c] by auto

text \<open>
  Where the classification of the error is defined, every submission calls its completion
  handler exactly once. A load whose read succeeds calls it with \<open>null\<close> and the archive
  handle; a load whose read returns a failure code calls it with one argument, an error
  object, and so does a load whose path conversion raises, as long as the stale members
  do not name an errno exception with a dangling system call name. \<open>createBSA\<close> calls it
  with \<open>null\<close> and the handle of the empty archive. \<open>extractFile\<close> and \<open>extractAll\<close> call it
  with the single argument \<open>null\<close> when the engine succeeds and with one error object when
  it does not.
\<close>

lemma callback_called_once_where_defined:
  "(toWC P fileName = Inr wide \<and> eng_read P (eng_new P) wide testHashes w = (ERROR_NONE, a, w')
      \<longrightarrow> fst (loadBSA P storage fileName testHashes w)
            = Inr [[Null, Wire \<lparr>m_Name = fileName, m_Wrapped = a\<rparr>]])
   \<and> (toWC P fileName = Inr wide \<and> eng_read P (eng_new P) wide testHashes w = (err, a, w')
        \<and> err \<noteq> ERROR_NONE
      \<longrightarrow> (\<exists>e. fst (loadBSA P storage fileName testHashes w) = Inr [[e]] \<and> is_error e))
   \<and> (toWC P fileName = Inl msg
        \<and> (m_ErrorCode storage \<notin> {ERROR_ACCESSFAILED, ERROR_FILENOTFOUND}
           \<or> m_SysCall storage \<noteq> Dangling)
      \<longrightarrow> (\<exists>e. fst (loadBSA P storage fileName testHashes w) = Inr [[e]] \<and> is_error e))
   \<and> fst (createBSA P storage fileName w)
        = Inr [[Null, Wire \<lparr>m_Name = fileName, m_Wrapped = eng_new P\<rparr>]]
   \<and> (getWrappee bsaFile = Some f \<and> fst (eng_extract P (m_Wrapped self) f dir w) = ERROR_NONE
      \<longrightarrow> fst (extractFile P self bsaFile dir w) = Inr [[Null]])
   \<and> (getWrappee bsaFile = Some f \<and> fst (eng_extract P (m_Wrapped self) f dir w) \<noteq> ERROR_NONE
      \<longrightarrow> (\<exists>e. fst (extractFile P self bsaFile dir w) = Inr [[e]] \<and> is_error e))
   \<and> (getWrappee bsaFile = None
      \<longrightarrow> extractFile P self bsaFile dir w = extractAll P self dir w)
   \<and> (fst (eng_extractAll P (m_Wrapped self) dir (\<lambda>i name. True) w) = ERROR_NONE
      \<longrightarrow> fst (extractAll P self dir w) = Inr [[Null]])
   \<and> (fst (eng_extractAll P (m_Wrapped self) dir (\<lambda>i name. True) w) \<noteq> ERROR_NONE
      \<longrightarrow> (\<exists>e. fst (extractAll P self dir w) = Inr [[e]] \<and> is_error e))"
proof -
  have load_fail: "\<exists>e. fst (loadBSA P storage fileName testHashes w) = Inr [[e]] \<and> is_error e"
    if "toWC P fileName = Inr wide" "eng_read P (eng_new P) wide testHashes w = (err, a, w')"
      "err \<noteq> ERROR_NONE"
  proof (cases "err = ERROR_ACCESSFAILED \<or> err = ERROR_FILENOTFOUND")
    case True
    from loadBSA_failure_errno [OF that(1,2) True, of storage] show ?thesis by simp
  next
    case False
    with that(3) have "err \<notin> {ERROR_NONE, ERROR_ACCESSFAILED, ERROR_FILENOTFOUND}" by simp
    from loadBSA_failure_plain [OF that(1,2) this, of storage] show ?thesis by auto
  qed
  have load_raise: "\<exists>e. fst (loadBSA P storage fileName testHashes w) = Inr [[e]] \<and> is_error e"
    if "toWC P fileName = Inl msg"
      "m_ErrorCode storage \<notin> {ERROR_ACCESSFAILED, ERROR_FILENOTFOUND}
         \<or> m_SysCall storage \<noteq> Dangling"
    using loadBSA_std_exception [OF that(1), of storage testHashes w] that(2)
    by (cases "m_SysCall storage") auto
  have ex1: "\<exists>e. fst (extractFile P self bsaFile dir w) = Inr [[e]] \<and> is_error e"
    if "getWrappee bsaFile = Some f" "fst (eng_extract P (m_Wrapped self) f dir w) \<noteq> ERROR_NONE"
    using extractFile_result [OF that(1), of P self dir w] is_error_convertErrorCode [OF that(2)]
      that(2) by simp
  have exall: "\<exists>e. fst (extractAll P self dir w) = Inr [[e]] \<and> is_error e"
    if "fst (eng_extractAll P (m_Wrapped self) dir (\<lambda>i name. True) w) \<noteq> ERROR_NONE"
    using extractAll_result [of P self dir w] is_error_convertErrorCode [OF that] that by simp
  show ?thesis
    using load_fail load_raise ex1 exall
      loadBSA_success [of P fileName wide testHashes w a w' storage]
      createBSA_result [of P storage fileName w]
      extractFile_result [of bsaFile f P self dir w]
      extractFile_null_handle [of bsaFile P self dir w]
      extractAll_result [of P self dir w]
    by simp
qed

lemma demo_read_ok:
  "toWC demo_platform ''data.bsa'' = Inr ''data.bsa''"
  "eng_read demo_platform (eng_new demo_platform) ''data.bsa'' True demo_world
     = (ERROR_NONE, \<lparr>a_type = TYPE_OBLIVION, a_root = demo_tree\<rparr>, demo_world)"
  by (simp_all add: demo_platform_def demo_failure_def)

lemma demo_read_missing:
  "toWC demo_platform ''missing.bsa'' = Inr ''missing.bsa''"
  "eng_read demo_platform (eng_new demo_platform) ''missing.bsa'' testHashes demo_world
     = (ERROR_FILENOTFOUND, eng_new demo_platform, demo_world\<lparr>errno := 2\<rparr>)"
  by (simp_all add: demo_platform_def demo_failure_def)

lemma demo_toWC_raises:
  "toWC demo_platform [CHR 0xFF] = Inl ''string conversion failed''"
  by (simp add: demo_platform_def)

text \<open>On the demonstration engine a load that succeeds hands over the archive.\<close>

lemma demo_load_calls_back_once:
  "loadBSA demo_platform (demo_storage ERROR_NONE) ''data.bsa'' True demo_world
     = (Inr [[Null, Wire demo_archive]], demo_world)"
  using loadBSA_success [OF demo_read_ok, of "demo_storage ERROR_NONE"]
  by (simp add: demo_archive_def)

text \<open>
  C4: a load whose path conversion raises a \<open>std::exception\<close>, in a worker whose storage
  held an access-failed code and, for \<open>m_SysCall\<close>, bytes that address no string. \<open>Execute\<close>
  sets the error message and assigns none of the three members; the error callback takes
  the stale code to name an errno exception and faults on the stale pointer while it
  builds the argument, so the completion handler is not called at all.
\<close>

theorem completion_handler_not_called_on_stale_members:
  "loadBSA demo_platform ((demo_storage ERROR_ACCESSFAILED)\<lparr>m_SysCall := Dangling\<rparr>)
     [CHR 0xFF] False demo_world = (Inl WildPointer, demo_world)"
  using loadBSA_std_exception [OF demo_toWC_raises,
      of "(demo_storage ERROR_ACCESSFAILED)\<lparr>m_SysCall := Dangling\<rparr>" False demo_world]
  by (simp add: demo_storage_def)

text \<open>
  C1: a load of a path that does not exist. The engine's read returns file-not-found with
  \<open>errno\<close> 2, and the completion handler receives an errno exception that carries 2 and,
  as the name of the system call, "write": \<open>BSArchive::read\<close> names the call as
  \<open>BSArchive::write\<close> does.
\<close>

theorem loadBSA_names_write_for_failed_read:
  "loadBSA demo_platform storage ''missing.bsa'' testHashes demo_world =
     (Inr [[ErrnoException 2 (Some ''write'')]], demo_world\<lparr>errno := 2\<rparr>)"
  using loadBSA_failure_errno [OF demo_read_missing, of storage testHashes]
  by (simp add: demo_world_def)

text \<open>
  C10: a load whose path conversion raises a \<open>std::exception\<close>. \<open>Execute\<close> sets the error
  message and leaves \<open>m_ErrorCode\<close>, \<open>m_Errno\<close> and \<open>m_SysCall\<close> as the storage of the worker
  held them, and the error callback classifies the error by them: the same request is
  answered with an errno exception made of the stale values, or with a plain error,
  depending on what was in the storage before the request.
\<close>

theorem error_classified_by_unassigned_members:
  "(\<forall>c. \<exists>wk. fst (LoadWorker_Execute demo_platform None
                    (LoadWorker_new (demo_storage c) [CHR 0xFF] False False) demo_world) = Inr wk
           \<and> errmsg wk = Some ''string conversion failed''
           \<and> m_ErrorCode wk = c \<and> m_Errno wk = 7 \<and> m_SysCall wk = Valid (Some ''stale''))
   \<and> loadBSA demo_platform (demo_storage ERROR_ACCESSFAILED) [CHR 0xFF] False demo_world =
       (Inr [[ErrnoException 7 (Some ''stale'')]], demo_world)
   \<and> loadBSA demo_platform (demo_storage ERROR_NONE) [CHR 0xFF] False demo_world =
       (Inr [[Error (Some ''string conversion failed'')]], demo_world)"
  using loadBSA_std_exception [OF demo_toWC_raises, of "demo_storage ERROR_ACCESSFAILED" False demo_world]
    loadBSA_std_exception [OF demo_toWC_raises, of "demo_storage ERROR_NONE" False demo_world]
    demo_toWC_raises
  by (simp add: demo_storage_def LoadWorker_Execute_def LoadWorker_new_def BSArchive_new_def
      BSArchive_read_def SetErrorMessage_def)

end
